theory Spec2Isabelle
  imports Main "HOL-Library.Word" "HOL-Library.Sublist" "HOL-Library.AList"
begin

section \<open>The abstract maker of the packaging framework\<close>

text \<open>
  A shallow embedding of the abstract class \<open>Maker\<close> (the maker base class of the
  repository): its constructor, the \<open>platforms\<close> accessor, \<open>prepareConfig\<close>, the two
  extension points with their failure-fast defaults, the external-binary checks, the
  staging helpers \<open>ensureDirectory\<close> and \<open>ensureFile\<close>, \<open>isInstalled\<close> and
  \<open>normalizeWindowsVersion\<close>.

  A method that throws, and an asynchronous method whose promise is rejected, returns
  \<open>Inl\<close> of the error; a normal return (a fulfilled promise) is \<open>Inr\<close> of the value.
  A method that assigns to \<open>this\<close> returns the updated instance.
\<close>

subsection \<open>Strings, errors and values\<close>

text \<open>
  A JavaScript string is a sequence of 16-bit code units. \<open>lit\<close> embeds an ASCII
  literal of the source.
\<close>

type_synonym code_unit = "16 word"
type_synonym jsstring = "code_unit list"

definition lit :: "string \<Rightarrow> jsstring" where
  "lit s = map (\<lambda>c. of_nat (of_char c)) s"

text \<open>\<open>new Error(message)\<close>: the only kind of error the class constructs itself.\<close>

datatype error = Error jsstring

type_synonym ForgeArch = jsstring
type_synonym ForgePlatform = jsstring

text \<open>
  The values a configuration can be at run time. What matters to the class is only
  whether \<open>typeof v === 'function'\<close>; a function value is called with the target
  architecture and returns a value or throws.
\<close>

datatype jsvalue =
    Undefined
  | Str jsstring
  | Obj "(jsstring \<times> jsvalue) list"
  | Fun "ForgeArch \<Rightarrow> error + jsvalue"

definition isFunction :: "jsvalue \<Rightarrow> bool" where
  "isFunction v = (case v of Fun f \<Rightarrow> True | _ \<Rightarrow> False)"

record MakerOptions =
  dir :: jsstring
  makeDir :: jsstring
  appName :: jsstring
  targetPlatform :: ForgePlatform
  targetArch :: ForgeArch
  forgeConfig :: jsvalue
  packageJSON :: jsvalue

subsection \<open>Instances and construction\<close>

text \<open>
  What the lookup of a method on an instance finds: the function of
  \<open>Maker.prototype\<close> itself (\<open>Inherited\<close>), or the function a concrete variant put in
  front of it (\<open>Overridden\<close>, with the behaviour of that function).
\<close>

datatype 'f method_slot = Inherited | Overridden 'f

record Maker =
  config :: jsvalue
  name :: jsstring
  defaultPlatforms :: "ForgePlatform list"
  requiredExternalBinaries :: "jsstring list"
  configOrConfigFetcher :: jsvalue
  platformsToMakeOn :: "ForgePlatform list option"
  isSupportedOnCurrentPlatform_method :: "(error + bool) method_slot"
  make_method :: "(MakerOptions \<Rightarrow> error + jsstring list) method_slot"

text \<open>
  A concrete variant supplies the abstract members \<open>name\<close> and \<open>defaultPlatforms\<close>,
  may declare \<open>requiredExternalBinaries\<close> (\<open>None\<close>: it keeps the initialiser \<open>[]\<close> of
  the base class) and may override the two methods.
\<close>

record variant =
  variant_name :: jsstring
  variant_defaultPlatforms :: "ForgePlatform list"
  variant_requiredExternalBinaries :: "jsstring list option"
  variant_isSupportedOnCurrentPlatform :: "(error + bool) method_slot"
  variant_make :: "(MakerOptions \<Rightarrow> error + jsstring list) method_slot"

text \<open>
  The constructor. The default \<open>{}\<close> of the first parameter applies exactly when the
  argument is \<open>undefined\<close>; an omitted second parameter is \<open>None\<close>. \<open>config\<close> is
  declared without initialiser and is \<open>undefined\<close> until \<open>prepareConfig\<close> runs.
\<close>

definition Maker_constructor :: "variant \<Rightarrow> jsvalue \<Rightarrow> ForgePlatform list option \<Rightarrow> Maker" where
  "Maker_constructor cls configArg platformsArg =
     \<lparr> config = Undefined,
       name = variant_name cls,
       defaultPlatforms = variant_defaultPlatforms cls,
       requiredExternalBinaries =
         (case variant_requiredExternalBinaries cls of None \<Rightarrow> [] | Some bs \<Rightarrow> bs),
       configOrConfigFetcher = (case configArg of Undefined \<Rightarrow> Obj [] | v \<Rightarrow> v),
       platformsToMakeOn = platformsArg,
       isSupportedOnCurrentPlatform_method = variant_isSupportedOnCurrentPlatform cls,
       make_method = variant_make cls \<rparr>"

subsection \<open>platforms\<close>



subsection \<open>prepareConfig\<close>

text \<open>
  An error thrown by the called function leaves the method before the assignment, so
  the instance is unchanged and only the error is returned.
\<close>

definition prepareConfig :: "ForgeArch \<Rightarrow> Maker \<Rightarrow> error + Maker" where
  "prepareConfig arch this =
     (case configOrConfigFetcher this of
        Fun f \<Rightarrow>
          (case f arch of
             Inl e \<Rightarrow> Inl e
           | Inr v \<Rightarrow> Inr (this\<lparr>config := v\<rparr>))
      | v \<Rightarrow> Inr (this\<lparr>config := v\<rparr>))"

text \<open>
  The specification's view of what is supplied at construction: a tagged union, and the
  argument each alternative passes to the constructor.
\<close>

datatype ConfigSource = Static jsvalue | Factory "ForgeArch \<Rightarrow> error + jsvalue"

definition supplied :: "ConfigSource \<Rightarrow> jsvalue" where
  "supplied src = (case src of Static v \<Rightarrow> v | Factory f \<Rightarrow> Fun f)"

subsection \<open>The extension points and their defaults\<close>

text \<open>
  The bodies of \<open>Maker.prototype.isSupportedOnCurrentPlatform\<close> and
  \<open>Maker.prototype.make\<close>. The test \<open>this.m === Maker.prototype.m\<close> holds exactly when
  the lookup of \<open>m\<close> on the instance finds the inherited function.
\<close>

definition Maker_isSupportedOnCurrentPlatform :: "Maker \<Rightarrow> error + bool" where
  "Maker_isSupportedOnCurrentPlatform this =
     (case isSupportedOnCurrentPlatform_method this of
        Inherited \<Rightarrow>
          Inl (Error (lit ''Maker '' @ name this
                 @ lit '' did not implement the isSupportedOnCurrentPlatform method''))
      | Overridden g \<Rightarrow> Inr True)"

definition Maker_make :: "Maker \<Rightarrow> MakerOptions \<Rightarrow> error + jsstring list" where
  "Maker_make this opts =
     (case make_method this of
        Inherited \<Rightarrow>
          Inl (Error (lit ''Maker '' @ name this @ lit '' did not implement the make method''))
      | Overridden g \<Rightarrow> Inr [])"

text \<open>
  The calls \<open>maker.isSupportedOnCurrentPlatform()\<close> and \<open>maker.make(opts)\<close>: the
  function found by the lookup runs.
\<close>

definition isSupportedOnCurrentPlatform :: "Maker \<Rightarrow> error + bool" where
  "isSupportedOnCurrentPlatform this =
     (case isSupportedOnCurrentPlatform_method this of
        Inherited \<Rightarrow> Maker_isSupportedOnCurrentPlatform this
      | Overridden g \<Rightarrow> g)"

definition make :: "Maker \<Rightarrow> MakerOptions \<Rightarrow> error + jsstring list" where
  "make this opts =
     (case make_method this of
        Inherited \<Rightarrow> Maker_make this opts
      | Overridden g \<Rightarrow> g opts)"

subsection \<open>External binaries\<close>

text \<open>
  \<open>which.sync(binary, { nothrow: true })\<close> is a parameter: the state of the search
  path, giving the resolved path of a command or \<open>None\<close> for \<open>null\<close>.
\<close>

type_synonym search_path = "jsstring \<Rightarrow> jsstring option"

definition externalBinariesExist :: "search_path \<Rightarrow> Maker \<Rightarrow> bool" where
  "externalBinariesExist which_sync this =
     list_all (\<lambda>binary. which_sync binary \<noteq> None) (requiredExternalBinaries this)"

text \<open>\<open>Array.prototype.join\<close> on an array of strings.\<close>

fun join :: "jsstring \<Rightarrow> jsstring list \<Rightarrow> jsstring" where
  "join sep [] = []"
| "join sep [x] = x"
| "join sep (x # y # ys) = x @ sep @ join sep (y # ys)"

definition ensureExternalBinariesExist :: "search_path \<Rightarrow> Maker \<Rightarrow> error + unit" where
  "ensureExternalBinariesExist which_sync this =
     (if \<not> externalBinariesExist which_sync this
      then Inl (Error (lit ''Cannot make for '' @ name this
             @ lit '', the following external binaries need to be installed: ''
             @ join (lit '', '') (requiredExternalBinaries this)))
      else Inr ())"

subsection \<open>isInstalled\<close>

text \<open>
  \<open>require\<close> is a parameter: loading a module gives its exports or throws.
\<close>

type_synonym module_loader = "jsstring \<Rightarrow> error + jsvalue"

definition isInstalled :: "module_loader \<Rightarrow> jsstring \<Rightarrow> error + bool" where
  "isInstalled require module =
     (case require module of
        Inr exports \<Rightarrow> Inr True
      | Inl e \<Rightarrow> Inr False)"

subsection \<open>normalizeWindowsVersion\<close>

text \<open>
  \<open>version.replace(/-.*/, '')\<close>: the pattern has no flags, so it replaces the leftmost
  match only, and \<open>.\<close> matches every code unit but the four line terminators. The match
  starts at the first \<open>-\<close> and runs up to the next line terminator or the end.
\<close>

definition hyphen :: code_unit where
  "hyphen = 0x002D"

definition isLineTerminator :: "code_unit \<Rightarrow> bool" where
  "isLineTerminator c = (c = 0x000A \<or> c = 0x000D \<or> c = 0x2028 \<or> c = 0x2029)"

definition replace_hyphen_dot_star :: "jsstring \<Rightarrow> jsstring" where
  "replace_hyphen_dot_star s =
     (case dropWhile (\<lambda>c. c \<noteq> hyphen) s of
        [] \<Rightarrow> s
      | h # rest \<Rightarrow>
          takeWhile (\<lambda>c. c \<noteq> hyphen) s @ dropWhile (\<lambda>c. \<not> isLineTerminator c) rest)"

definition normalizeWindowsVersion :: "jsstring \<Rightarrow> jsstring" where
  "normalizeWindowsVersion version =
     (let noPrerelease = replace_hyphen_dot_star version in noPrerelease @ lit ''.0'')"

subsection \<open>The staging helpers\<close>

text \<open>
  Modelled from the spec: the filesystem collaborator (existence check, recursive remove,
  recursive directory creation; \<open>pathExists\<close>, \<open>remove\<close> and \<open>mkdirs\<close> of the
  library the class imports) and \<open>path.dirname\<close>, to which the helpers delegate and
  which are not part of the repository. The filesystem is a tree of plain files and
  directories; a directory lists its entries by name, the first entry of a name being
  the one a lookup finds. A path is given resolved, as its segments from the root, so
  the root is the empty path and \<open>dirname\<close> drops the last segment. Links, permissions
  and other processes are left out.
\<close>

datatype fsnode = File | Dir "(jsstring \<times> fsnode) list"

type_synonym path = "jsstring list"

fun lookup :: "fsnode \<Rightarrow> path \<Rightarrow> fsnode option" where
  "lookup n [] = Some n"
| "lookup File (s # p) = None"
| "lookup (Dir es) (s # p) = (case map_of es s of None \<Rightarrow> None | Some c \<Rightarrow> lookup c p)"

text \<open>\<open>fs.pathExists\<close> never rejects: a path that cannot be reached does not exist.\<close>

definition pathExists :: "fsnode \<Rightarrow> path \<Rightarrow> bool" where
  "pathExists fs p = (lookup fs p \<noteq> None)"

text \<open>
  \<open>fs.remove\<close> deletes a file, or a directory with everything below it, and does
  nothing when the path does not exist. The root cannot be removed.
\<close>

fun remove_at :: "fsnode \<Rightarrow> path \<Rightarrow> fsnode" where
  "remove_at n [] = n"
| "remove_at File (s # p) = File"
| "remove_at (Dir es) (s # p) =
     (if p = [] then Dir (AList.delete s es)
      else (case map_of es s of
              None \<Rightarrow> Dir es
            | Some c \<Rightarrow> Dir (AList.update s (remove_at c p) es)))"

definition remove :: "fsnode \<Rightarrow> path \<Rightarrow> error + fsnode" where
  "remove fs p = (if p = [] then Inl (Error (lit ''EBUSY'')) else Inr (remove_at fs p))"

text \<open>
  \<open>fs.mkdirs\<close> creates the directory and every missing directory above it, keeps an
  existing directory as it is, and fails where a segment of the path is a plain file.
\<close>

fun mkdirs :: "fsnode \<Rightarrow> path \<Rightarrow> error + fsnode" where
  "mkdirs File [] = Inl (Error (lit ''EEXIST''))"
| "mkdirs (Dir es) [] = Inr (Dir es)"
| "mkdirs File (s # p) = Inl (Error (lit ''ENOTDIR''))"
| "mkdirs (Dir es) (s # p) =
     (case mkdirs (case map_of es s of None \<Rightarrow> Dir [] | Some c \<Rightarrow> c) p of
        Inl e \<Rightarrow> Inl e
      | Inr c' \<Rightarrow> Inr (Dir (AList.update s c' es)))"

definition dirname :: "path \<Rightarrow> path" where
  "dirname p = butlast p"

definition ensureDirectory :: "path \<Rightarrow> fsnode \<Rightarrow> error + fsnode" where
  "ensureDirectory d fs =
     (case (if pathExists fs d then remove fs d else Inr fs) of
        Inl e \<Rightarrow> Inl e
      | Inr fs1 \<Rightarrow> mkdirs fs1 d)"

definition ensureFile :: "path \<Rightarrow> fsnode \<Rightarrow> error + fsnode" where
  "ensureFile file fs =
     (case (if pathExists fs file then remove fs file else Inr fs) of
        Inl e \<Rightarrow> Inl e
      | Inr fs1 \<Rightarrow> mkdirs fs1 (dirname file))"

subsection \<open>Example inputs\<close>

text \<open>
  Two concrete variants (one that leaves \<open>make\<close> to the base class, one that overrides
  both methods and declares two tools), a search path that knows only \<open>toolA\<close>, a
  configuration function and a small filesystem.
\<close>

definition example_variant :: variant where
  "example_variant =
     \<lparr> variant_name = lit ''zip'',
       variant_defaultPlatforms = [lit ''darwin'', lit ''linux''],
       variant_requiredExternalBinaries = None,
       variant_isSupportedOnCurrentPlatform = Overridden (Inr True),
       variant_make = Inherited \<rparr>"

definition tools_variant :: variant where
  "tools_variant =
     \<lparr> variant_name = lit ''deb'',
       variant_defaultPlatforms = [lit ''linux''],
       variant_requiredExternalBinaries = Some [lit ''toolA'', lit ''toolB''],
       variant_isSupportedOnCurrentPlatform = Overridden (Inr True),
       variant_make = Overridden (\<lambda>opts. Inr [makeDir opts @ lit ''/app.deb'']) \<rparr>"

definition example_options :: MakerOptions where
  "example_options =
     \<lparr> dir = lit ''/app'', makeDir = lit ''/out'', appName = lit ''app'',
       targetPlatform = lit ''linux'', targetArch = lit ''x64'',
       forgeConfig = Obj [], packageJSON = Obj [] \<rparr>"

definition only_toolA :: search_path where
  "only_toolA binary = (if binary = lit ''toolA'' then Some (lit ''/usr/bin/toolA'') else None)"

definition echo_arch :: "ForgeArch \<Rightarrow> error + jsvalue" where
  "echo_arch a = Inr (Str a)"

definition example_fs :: fsnode where
  "example_fs =
     Dir [(lit ''out'', Dir [(lit ''make'', Dir [(lit ''old.zip'', File)])]),
          (lit ''notes'', File)]"

section \<open>Properties\<close>

subsection \<open>Contract enforcement\<close>

text \<open>
  C1. The base-class body of \<open>isSupportedOnCurrentPlatform\<close> (of \<open>make\<close>) fails exactly
  when the instance did not override that method. Calling a method that is not overridden
  fails with an \<open>Error\<close> whose message contains the name of the instance and names the
  method; calling an overridden method runs the override, and the base-class check, if the
  override reaches it, returns normally. \<open>make\<close> is asynchronous: its failure is the
  rejection of the promise it returns.
\<close>

theorem contract_violation_iff_not_overridden:
  "((\<exists>e. Maker_isSupportedOnCurrentPlatform this = Inl e)
      = (isSupportedOnCurrentPlatform_method this = Inherited))
   \<and> ((\<exists>e. Maker_make this opts = Inl e) = (make_method this = Inherited))
   \<and> (isSupportedOnCurrentPlatform_method this = Inherited \<longrightarrow>
        (\<exists>msg. isSupportedOnCurrentPlatform this = Inl (Error msg)
           \<and> sublist (name this) msg
           \<and> sublist (lit ''the isSupportedOnCurrentPlatform method'') msg))
   \<and> (make_method this = Inherited \<longrightarrow>
        (\<exists>msg. make this opts = Inl (Error msg)
           \<and> sublist (name this) msg
           \<and> sublist (lit ''the make method'') msg))
   \<and> (\<forall>g. isSupportedOnCurrentPlatform_method this = Overridden g \<longrightarrow>
          isSupportedOnCurrentPlatform this = g
          \<and> Maker_isSupportedOnCurrentPlatform this = Inr True)
   \<and> (\<forall>g. make_method this = Overridden g \<longrightarrow>
          make this opts = g opts \<and> Maker_make this opts = Inr [])"
proof -
  have a: "(\<exists>e. Maker_isSupportedOnCurrentPlatform this = Inl e)
      = (isSupportedOnCurrentPlatform_method this = Inherited)"
    by (simp add: Maker_isSupportedOnCurrentPlatform_def split: method_slot.split)
  have b: "(\<exists>e. Maker_make this opts = Inl e) = (make_method this = Inherited)"
    by (simp add: Maker_make_def split: method_slot.split)
  have s1: "lit '' did not implement the isSupportedOnCurrentPlatform method''
      = lit '' did not implement '' @ lit ''the isSupportedOnCurrentPlatform method'' @ []"
    by (simp add: lit_def)
  have s2: "lit '' did not implement the make method''
      = lit '' did not implement '' @ lit ''the make method'' @ []"
    by (simp add: lit_def)
  have c: "\<exists>msg. isSupportedOnCurrentPlatform this = Inl (Error msg)
           \<and> sublist (name this) msg
           \<and> sublist (lit ''the isSupportedOnCurrentPlatform method'') msg"
    if "isSupportedOnCurrentPlatform_method this = Inherited"
  proof (intro exI conjI)
    show "isSupportedOnCurrentPlatform this = Inl (Error (lit ''Maker '' @ name this
                 @ lit '' did not implement the isSupportedOnCurrentPlatform method''))"
      using that by (simp add: isSupportedOnCurrentPlatform_def Maker_isSupportedOnCurrentPlatform_def)
    show "sublist (name this) (lit ''Maker '' @ name this
                 @ lit '' did not implement the isSupportedOnCurrentPlatform method'')"
      by (rule sublist_appendI)
    have "sublist (lit ''the isSupportedOnCurrentPlatform method'')
       ((lit ''Maker '' @ name this @ lit '' did not implement '')
          @ lit ''the isSupportedOnCurrentPlatform method'' @ [])"
      by (rule sublist_appendI)
    then show "sublist (lit ''the isSupportedOnCurrentPlatform method'') (lit ''Maker '' @ name this
                 @ lit '' did not implement the isSupportedOnCurrentPlatform method'')"
      by (simp only: s1 append_assoc)
  qed
  have d: "\<exists>msg. make this opts = Inl (Error msg)
           \<and> sublist (name this) msg \<and> sublist (lit ''the make method'') msg"
    if "make_method this = Inherited"
  proof (intro exI conjI)
    show "make this opts = Inl (Error (lit ''Maker '' @ name this
                 @ lit '' did not implement the make method''))"
      using that by (simp add: make_def Maker_make_def)
    show "sublist (name this) (lit ''Maker '' @ name this @ lit '' did not implement the make method'')"
      by (rule sublist_appendI)
    have "sublist (lit ''the make method'')
       ((lit ''Maker '' @ name this @ lit '' did not implement '') @ lit ''the make method'' @ [])"
      by (rule sublist_appendI)
    then show "sublist (lit ''the make method'')
        (lit ''Maker '' @ name this @ lit '' did not implement the make method'')"
      by (simp only: s2 append_assoc)
  qed
  have e: "\<forall>g. isSupportedOnCurrentPlatform_method this = Overridden g \<longrightarrow>
          isSupportedOnCurrentPlatform this = g
          \<and> Maker_isSupportedOnCurrentPlatform this = Inr True"
    by (simp add: isSupportedOnCurrentPlatform_def Maker_isSupportedOnCurrentPlatform_def)
  have f: "\<forall>g. make_method this = Overridden g \<longrightarrow>
          make this opts = g opts \<and> Maker_make this opts = Inr []"
    by (simp add: make_def Maker_make_def)
  from a b c d e f show ?thesis by blast
qed

text \<open>An instance that overrides only \<open>isSupportedOnCurrentPlatform\<close>, and one that overrides both.\<close>

theorem contract_violation_witness:
  "make (Maker_constructor example_variant Undefined None) example_options
     = Inl (Error (lit ''Maker zip did not implement the make method''))
   \<and> isSupportedOnCurrentPlatform (Maker_constructor example_variant Undefined None) = Inr True
   \<and> make (Maker_constructor tools_variant Undefined None) example_options
     = Inr [lit ''/out/app.deb'']"
  using contract_violation_iff_not_overridden
          [of "Maker_constructor example_variant Undefined None" example_options]
        contract_violation_iff_not_overridden
          [of "Maker_constructor tools_variant Undefined None" example_options]
  by (simp add: Maker_constructor_def example_variant_def tools_variant_def example_options_def
        make_def Maker_make_def lit_def)

subsection \<open>Platforms\<close>



subsection \<open>External binaries\<close>

lemma sublist_join: "b \<in> set bs \<Longrightarrow> sublist b (join sep bs)"
proof (induction sep bs rule: join.induct)
  case (3 sep x y ys)
  show ?case
  proof (cases "b = x")
    case True
    have "sublist x ([] @ x @ (sep @ join sep (y # ys)))" by (rule sublist_appendI)
    with True show ?thesis by simp
  next
    case False
    with 3 have "sublist b (join sep (y # ys))" by simp
    then obtain ps ss where "join sep (y # ys) = ps @ b @ ss" by (auto simp: sublist_def)
    then have "x @ sep @ join sep (y # ys) = (x @ sep @ ps) @ b @ ss" by simp
    then have "sublist b (x @ sep @ join sep (y # ys))" unfolding sublist_def by blast
    then show ?thesis by simp
  qed
qed simp_all

text \<open>
  C3. \<open>externalBinariesExist\<close> is true iff every required binary resolves on the search
  path. \<open>ensureExternalBinariesExist\<close> fails iff some required binary does not resolve, and
  then the message is the fixed text, the name of the instance and all configured binaries in
  their order, joined by \<open>', '\<close>: every configured binary occurs in it, not only the
  missing ones.
\<close>

theorem external_binaries_validation:
  "externalBinariesExist which_sync this
     = (\<forall>b \<in> set (requiredExternalBinaries this). which_sync b \<noteq> None)
   \<and> ((\<exists>e. ensureExternalBinariesExist which_sync this = Inl e)
        = (\<exists>b \<in> set (requiredExternalBinaries this). which_sync b = None))
   \<and> (\<forall>e. ensureExternalBinariesExist which_sync this = Inl e \<longrightarrow>
         e = Error (lit ''Cannot make for '' @ name this
               @ lit '', the following external binaries need to be installed: ''
               @ join (lit '', '') (requiredExternalBinaries this)))
   \<and> (\<forall>b \<in> set (requiredExternalBinaries this).
         sublist b (join (lit '', '') (requiredExternalBinaries this)))"
  by (auto simp: externalBinariesExist_def ensureExternalBinariesExist_def list_all_iff
        sublist_join split: if_splits)

text \<open>Only \<open>toolA\<close> resolves: the message lists \<open>toolA\<close> and \<open>toolB\<close>.\<close>

theorem external_binaries_validation_witness:
  "\<not> externalBinariesExist only_toolA (Maker_constructor tools_variant Undefined None)
   \<and> ensureExternalBinariesExist only_toolA (Maker_constructor tools_variant Undefined None)
       = Inl (Error (lit ''Cannot make for deb, the following external binaries need to be installed: toolA, toolB''))
   \<and> sublist (lit ''toolA'') (join (lit '', '') [lit ''toolA'', lit ''toolB''])"
  using external_binaries_validation
          [of only_toolA "Maker_constructor tools_variant Undefined None"]
  by (simp add: Maker_constructor_def tools_variant_def only_toolA_def lit_def
        ensureExternalBinariesExist_def externalBinariesExist_def)

text \<open>
  C9. A variant that declares no required binaries gets the empty sequence, and with an
  empty sequence \<open>externalBinariesExist\<close> is true and \<open>ensureExternalBinariesExist\<close>
  returns normally, whatever the search path.
\<close>

theorem no_required_binaries:
  "(variant_requiredExternalBinaries cls = None \<longrightarrow>
      requiredExternalBinaries (Maker_constructor cls cfg p) = [])
   \<and> (requiredExternalBinaries this = [] \<longrightarrow>
        externalBinariesExist which_sync this
        \<and> ensureExternalBinariesExist which_sync this = Inr ())"
  by (simp add: Maker_constructor_def externalBinariesExist_def ensureExternalBinariesExist_def)

text \<open>A search path on which nothing resolves.\<close>

theorem no_required_binaries_witness:
  "requiredExternalBinaries (Maker_constructor example_variant Undefined None) = []
   \<and> externalBinariesExist (\<lambda>b. None) (Maker_constructor example_variant Undefined None)
   \<and> ensureExternalBinariesExist (\<lambda>b. None) (Maker_constructor example_variant Undefined None)
       = Inr ()"
  using no_required_binaries
          [of example_variant Undefined None "Maker_constructor example_variant Undefined None"
              "\<lambda>b. None"]
  by (simp add: example_variant_def)

subsection \<open>Configuration\<close>

text \<open>
  C4. As amended: for every architecture, \<open>prepareConfig\<close> changes only \<open>config\<close>, on a
  fresh instance and on one that was prepared before. Where the value stored at
  construction is a Factory, \<open>config\<close> becomes exactly the result of the factory at the
  architecture (so distinct architectures may yield distinct values), and an error of the
  factory is returned as it is. Where it is a Static value that is not itself a function,
  \<open>config\<close> becomes that stored value unchanged, the same for every architecture. The
  constructor stores the supplied value, and its default \<open>{}\<close> for \<open>undefined\<close>.
\<close>

theorem prepareConfig_resolves:
  "(configOrConfigFetcher this = supplied (Factory f) \<longrightarrow>
      prepareConfig arch this =
        (case f arch of
           Inl e \<Rightarrow> Inl e
         | Inr v \<Rightarrow> Inr (this\<lparr>config := v\<rparr>)))
   \<and> (\<not> isFunction (configOrConfigFetcher this) \<longrightarrow>
        prepareConfig arch this = Inr (this\<lparr>config := configOrConfigFetcher this\<rparr>))
   \<and> (\<forall>this'. prepareConfig arch this = Inr this' \<longrightarrow> this' = this\<lparr>config := config this'\<rparr>)
   \<and> configOrConfigFetcher (Maker_constructor cls (supplied (Factory f)) p) = Fun f
   \<and> configOrConfigFetcher (Maker_constructor cls (supplied (Static s)) p)
       = (case s of Undefined \<Rightarrow> Obj [] | Str x \<Rightarrow> s | Obj x \<Rightarrow> s | Fun x \<Rightarrow> s)
   \<and> (\<not> isFunction s \<longrightarrow>
        \<not> isFunction (configOrConfigFetcher (Maker_constructor cls (supplied (Static s)) p)))"
proof -
  have factory: "prepareConfig arch this =
        (case f arch of Inl e \<Rightarrow> Inl e | Inr v \<Rightarrow> Inr (this\<lparr>config := v\<rparr>))"
    if "configOrConfigFetcher this = supplied (Factory f)"
    using that by (simp add: prepareConfig_def supplied_def)
  have static: "prepareConfig arch this = Inr (this\<lparr>config := configOrConfigFetcher this\<rparr>)"
    if "\<not> isFunction (configOrConfigFetcher this)"
    using that by (cases "configOrConfigFetcher this") (simp_all add: prepareConfig_def isFunction_def)
  have only: "this' = this\<lparr>config := config this'\<rparr>" if "prepareConfig arch this = Inr this'" for this'
    using that
    by (cases "configOrConfigFetcher this") (auto simp: prepareConfig_def split: sum.splits)
  have stored_factory: "configOrConfigFetcher (Maker_constructor cls (supplied (Factory f)) p) = Fun f"
    by (simp add: Maker_constructor_def supplied_def)
  have stored_static: "configOrConfigFetcher (Maker_constructor cls (supplied (Static s)) p)
       = (case s of Undefined \<Rightarrow> Obj [] | Str x \<Rightarrow> s | Obj x \<Rightarrow> s | Fun x \<Rightarrow> s)"
    by (cases s) (simp_all add: Maker_constructor_def supplied_def)
  have stored_plain: "\<not> isFunction (configOrConfigFetcher (Maker_constructor cls (supplied (Static s)) p))"
    if "\<not> isFunction s"
    using that by (cases s) (simp_all add: Maker_constructor_def supplied_def isFunction_def)
  from factory static only stored_factory stored_static stored_plain show ?thesis by blast
qed

text \<open>
  One instance with a factory that returns the architecture, prepared for \<open>x64\<close> and then
  again for \<open>arm64\<close>; one instance with a static string, prepared for \<open>arm64\<close>; and the
  default that is stored for \<open>undefined\<close>.
\<close>

theorem prepareConfig_resolves_witness:
  "prepareConfig (lit ''x64'') (Maker_constructor example_variant (supplied (Factory echo_arch)) None)
     = Inr ((Maker_constructor example_variant (supplied (Factory echo_arch)) None)
              \<lparr>config := Str (lit ''x64'')\<rparr>)
   \<and> prepareConfig (lit ''arm64'')
        ((Maker_constructor example_variant (supplied (Factory echo_arch)) None)
              \<lparr>config := Str (lit ''x64'')\<rparr>)
     = Inr ((Maker_constructor example_variant (supplied (Factory echo_arch)) None)
              \<lparr>config := Str (lit ''arm64'')\<rparr>)
   \<and> prepareConfig (lit ''arm64'')
        (Maker_constructor example_variant (supplied (Static (Str (lit ''fixed'')))) None)
     = Inr ((Maker_constructor example_variant (supplied (Static (Str (lit ''fixed'')))) None)
              \<lparr>config := Str (lit ''fixed'')\<rparr>)
   \<and> configOrConfigFetcher (Maker_constructor example_variant (supplied (Static Undefined)) None)
     = Obj []"
  using prepareConfig_resolves
          [where this = "Maker_constructor example_variant (supplied (Factory echo_arch)) None"
             and f = echo_arch and arch = "lit ''x64''" and cls = example_variant and p = None
             and s = Undefined]
        prepareConfig_resolves
          [where this = "(Maker_constructor example_variant (supplied (Factory echo_arch)) None)
                            \<lparr>config := Str (lit ''x64'')\<rparr>"
             and f = echo_arch and arch = "lit ''arm64''" and cls = example_variant and p = None
             and s = "Str (lit ''fixed'')"]
        prepareConfig_resolves
          [where this = "Maker_constructor example_variant (supplied (Static (Str (lit ''fixed'')))) None"
             and f = echo_arch and arch = "lit ''arm64''" and cls = example_variant and p = None
             and s = "Str (lit ''fixed'')"]
  by (simp add: echo_arch_def isFunction_def Maker_constructor_def supplied_def)

text \<open>
  The claim as stated fails for a Static value that is a function: it is called, and
  \<open>config\<close> is its result, not the stored function.
\<close>

theorem prepareConfig_static_function_counterexample:
  "prepareConfig (lit ''x64'')
      (Maker_constructor example_variant (supplied (Static (Fun echo_arch))) None)
     = Inr ((Maker_constructor example_variant (supplied (Static (Fun echo_arch))) None)
              \<lparr>config := Str (lit ''x64'')\<rparr>)
   \<and> prepareConfig (lit ''x64'')
        (Maker_constructor example_variant (supplied (Static (Fun echo_arch))) None)
     \<noteq> Inr ((Maker_constructor example_variant (supplied (Static (Fun echo_arch))) None)
              \<lparr>config := Fun echo_arch\<rparr>)"
  by (simp add: prepareConfig_def Maker_constructor_def supplied_def echo_arch_def)

text \<open>
  C10. The discrimination is by the run-time type of the stored value, not by a tag: a
  Static value that is a function reaches the constructor as the same argument as a
  Factory and is stored as it is, and for every instance whose stored value is a
  function, fresh or prepared before, \<open>prepareConfig\<close> calls that function with the
  architecture and stores its result in \<open>config\<close> (or returns its error); it does not
  store the function.
\<close>

theorem prepareConfig_calls_function_value:
  "(configOrConfigFetcher this = Fun g \<longrightarrow>
      prepareConfig arch this =
        (case g arch of
           Inl e \<Rightarrow> Inl e
         | Inr v \<Rightarrow> Inr (this\<lparr>config := v\<rparr>)))
   \<and> isFunction (configOrConfigFetcher this)
       = (\<exists>h. configOrConfigFetcher this = Fun h)
   \<and> configOrConfigFetcher (Maker_constructor cls (supplied (Static (Fun g))) p) = Fun g
   \<and> supplied (Static (Fun g)) = supplied (Factory g)"
proof -
  have called: "prepareConfig arch this =
        (case g arch of Inl e \<Rightarrow> Inl e | Inr v \<Rightarrow> Inr (this\<lparr>config := v\<rparr>))"
    if "configOrConfigFetcher this = Fun g"
    using that by (simp add: prepareConfig_def)
  have typed: "isFunction (configOrConfigFetcher this) = (\<exists>h. configOrConfigFetcher this = Fun h)"
    by (cases "configOrConfigFetcher this") (simp_all add: isFunction_def)
  have stored: "configOrConfigFetcher (Maker_constructor cls (supplied (Static (Fun g))) p) = Fun g"
    by (simp add: Maker_constructor_def supplied_def)
  have same: "supplied (Static (Fun g)) = supplied (Factory g)"
    by (simp add: supplied_def)
  from called typed stored same show ?thesis by blast
qed

text \<open>
  An instance constructed with a function as its static value, prepared for \<open>x64\<close> and
  then again for \<open>ia32\<close>: each time \<open>config\<close> is the result of the call.
\<close>

theorem prepareConfig_calls_function_value_witness:
  "prepareConfig (lit ''x64'')
      (Maker_constructor example_variant (supplied (Static (Fun echo_arch))) None)
     = Inr ((Maker_constructor example_variant (supplied (Static (Fun echo_arch))) None)
              \<lparr>config := Str (lit ''x64'')\<rparr>)
   \<and> prepareConfig (lit ''ia32'')
        ((Maker_constructor example_variant (supplied (Static (Fun echo_arch))) None)
              \<lparr>config := Str (lit ''x64'')\<rparr>)
     = Inr ((Maker_constructor example_variant (supplied (Static (Fun echo_arch))) None)
              \<lparr>config := Str (lit ''ia32'')\<rparr>)"
  using prepareConfig_calls_function_value
          [where this = "Maker_constructor example_variant (supplied (Static (Fun echo_arch))) None"
             and g = echo_arch and arch = "lit ''x64''" and cls = example_variant and p = None]
        prepareConfig_calls_function_value
          [where this = "(Maker_constructor example_variant (supplied (Static (Fun echo_arch))) None)
                            \<lparr>config := Str (lit ''x64'')\<rparr>"
             and g = echo_arch and arch = "lit ''ia32''" and cls = example_variant and p = None]
  by (simp add: echo_arch_def Maker_constructor_def supplied_def)

subsection \<open>Staging\<close>

lemma lookup_remove_at: "p \<noteq> [] \<Longrightarrow> lookup (remove_at n p) p = None"
proof (induction p arbitrary: n)
  case Nil
  then show ?case by simp
next
  case (Cons s p)
  then show ?case
    by (cases n) (auto simp: delete_conv' update_conv' split: option.splits)
qed

lemma mkdirs_fresh: "mkdirs (Dir []) p = Inr n' \<Longrightarrow> lookup n' p = Some (Dir [])"
  by (induction p arbitrary: n') (auto simp: update_conv' split: sum.splits)

lemma mkdirs_creates_empty:
  "lookup n p = None \<Longrightarrow> mkdirs n p = Inr n' \<Longrightarrow> lookup n' p = Some (Dir [])"
proof (induction n p arbitrary: n' rule: mkdirs.induct)
  case (4 es s p)
  show ?case
  proof (cases "map_of es s")
    case None
    with 4 show ?thesis by (auto simp: update_conv' split: sum.splits dest: mkdirs_fresh)
  next
    case (Some c)
    with 4 show ?thesis by (auto simp: update_conv' split: sum.splits)
  qed
qed simp_all

lemma mkdirs_isDir: "mkdirs n p = Inr n' \<Longrightarrow> \<exists>es. lookup n' p = Some (Dir es)"
  by (induction n p arbitrary: n' rule: mkdirs.induct) (auto simp: update_conv' split: sum.splits)

lemma mkdirs_no_child:
  "lookup n (q @ [s]) = None \<Longrightarrow> mkdirs n q = Inr n' \<Longrightarrow> lookup n' (q @ [s]) = None"
proof (induction n q arbitrary: n' rule: mkdirs.induct)
  case (4 es a p)
  show ?case
  proof (cases "map_of es a")
    case None
    from 4 None obtain c where c: "mkdirs (Dir []) p = Inr c" "n' = Dir (AList.update a c es)"
      by (auto split: sum.splits)
    have "lookup (Dir []) (p @ [s]) = None" by (cases p) simp_all
    with 4(1)[of c] None c have "lookup c (p @ [s]) = None" by simp
    with c show ?thesis by (simp add: update_conv')
  next
    case (Some c)
    with 4 show ?thesis by (auto simp: update_conv' split: sum.splits)
  qed
qed auto

lemma lookup_ancestor:
  "lookup n (q @ r) = Some x \<Longrightarrow> r \<noteq> [] \<Longrightarrow> \<exists>es. lookup n q = Some (Dir es)"
proof (induction q arbitrary: n)
  case Nil
  then show ?case by (cases n; cases r) simp_all
next
  case (Cons a q)
  then show ?case by (cases n) (auto split: option.splits)
qed

lemma mkdirs_existing: "lookup n p = Some (Dir es) \<Longrightarrow> mkdirs n p = Inr n"
proof (induction p arbitrary: n)
  case Nil
  then show ?case by simp
next
  case (Cons s p)
  then show ?case by (cases n) (auto simp: update_triv split: option.splits)
qed

lemma mkdirs_after_remove_at:
  "lookup n p \<noteq> None \<Longrightarrow> p \<noteq> [] \<Longrightarrow> \<exists>n'. mkdirs (remove_at n p) p = Inr n'"
proof (induction p arbitrary: n)
  case Nil
  then show ?case by simp
next
  case (Cons s p)
  show ?case
  proof (cases n)
    case File
    with Cons.prems show ?thesis by simp
  next
    case (Dir es)
    show ?thesis
    proof (cases "p = []")
      case True
      with Dir show ?thesis by (simp add: delete_conv')
    next
      case False
      from Cons.prems Dir obtain c where c: "map_of es s = Some c" "lookup c p \<noteq> None"
        by (auto split: option.splits)
      with False Cons.IH[of c] obtain c' where "mkdirs (remove_at c p) p = Inr c'" by blast
      with Dir False c show ?thesis by (simp add: update_conv')
    qed
  qed
qed

lemma remove_at_keeps_parent:
  "lookup n (q @ [s]) \<noteq> None \<Longrightarrow> \<exists>es. lookup (remove_at n (q @ [s])) q = Some (Dir es)"
proof (induction q arbitrary: n)
  case Nil
  then show ?case by (cases n) simp_all
next
  case (Cons a q)
  then show ?case by (cases n) (auto simp: update_conv' split: option.splits)
qed

text \<open>
  C5. When \<open>ensureDirectory\<close> succeeds, the path is an empty directory and every
  segment above it is a directory. It succeeds on every path below the root that existed
  before, whatever it held.
\<close>

theorem ensureDirectory_exists_empty:
  "(ensureDirectory d fs = Inr fs' \<longrightarrow>
      lookup fs' d = Some (Dir [])
      \<and> (\<forall>q. strict_prefix q d \<longrightarrow> (\<exists>es. lookup fs' q = Some (Dir es))))
   \<and> (d \<noteq> [] \<and> pathExists fs d \<longrightarrow> (\<exists>fs''. ensureDirectory d fs = Inr fs''))"
proof (intro conjI impI allI)
  assume ok: "ensureDirectory d fs = Inr fs'"
  show e: "lookup fs' d = Some (Dir [])"
  proof (cases "pathExists fs d")
    case True
    with ok have ne: "d \<noteq> []" and mk: "mkdirs (remove_at fs d) d = Inr fs'"
      by (auto simp: ensureDirectory_def remove_def split: if_splits)
    from ne have "lookup (remove_at fs d) d = None" by (rule lookup_remove_at)
    then show ?thesis using mk by (rule mkdirs_creates_empty)
  next
    case False
    with ok have "lookup fs d = None" and "mkdirs fs d = Inr fs'"
      by (auto simp: ensureDirectory_def pathExists_def)
    then show ?thesis by (rule mkdirs_creates_empty)
  qed
  fix q assume "strict_prefix q d"
  then obtain r where "d = q @ r" and "r \<noteq> []" by (auto simp: strict_prefix_def prefix_def)
  with e show "\<exists>es. lookup fs' q = Some (Dir es)" by (auto dest: lookup_ancestor)
next
  assume "d \<noteq> [] \<and> pathExists fs d"
  then show "\<exists>fs''. ensureDirectory d fs = Inr fs''"
    by (simp add: ensureDirectory_def remove_def pathExists_def mkdirs_after_remove_at)
qed

text \<open>
  A directory that holds a file is emptied; a path with a missing parent is created
  together with the parent.
\<close>

theorem ensureDirectory_witness:
  "ensureDirectory [lit ''out'', lit ''make''] example_fs
     = Inr (Dir [(lit ''out'', Dir [(lit ''make'', Dir [])]), (lit ''notes'', File)])
   \<and> lookup (Dir [(lit ''out'', Dir [(lit ''make'', Dir [])]), (lit ''notes'', File)])
         [lit ''out'', lit ''make''] = Some (Dir [])
   \<and> ensureDirectory [lit ''tmp'', lit ''a''] example_fs
     = Inr (Dir [(lit ''out'', Dir [(lit ''make'', Dir [(lit ''old.zip'', File)])]),
                 (lit ''notes'', File), (lit ''tmp'', Dir [(lit ''a'', Dir [])])])"
  using ensureDirectory_exists_empty
          [of "[lit ''out'', lit ''make'']" example_fs
              "Dir [(lit ''out'', Dir [(lit ''make'', Dir [])]), (lit ''notes'', File)]"]
  by (simp add: ensureDirectory_def pathExists_def remove_def example_fs_def lit_def)

text \<open>
  C6. When \<open>ensureFile\<close> succeeds, nothing exists at the path and every segment above
  it is a directory. It succeeds on every path below the root that existed before.
\<close>

theorem ensureFile_absent_parent_exists:
  "(ensureFile file fs = Inr fs' \<longrightarrow>
      lookup fs' file = None
      \<and> (\<forall>q. strict_prefix q file \<longrightarrow> (\<exists>es. lookup fs' q = Some (Dir es))))
   \<and> (file \<noteq> [] \<and> pathExists fs file \<longrightarrow> (\<exists>fs''. ensureFile file fs = Inr fs''))"
proof (intro conjI impI allI)
  assume ok: "ensureFile file fs = Inr fs'"
  have ne: "file \<noteq> []"
  proof
    assume "file = []"
    with ok show False by (simp add: ensureFile_def pathExists_def remove_def)
  qed
  define fs1 where "fs1 = (if pathExists fs file then remove_at fs file else fs)"
  have gone: "lookup fs1 file = None"
    using ne by (simp add: fs1_def pathExists_def lookup_remove_at)
  have mk: "mkdirs fs1 (dirname file) = Inr fs'"
    using ok ne by (simp add: ensureFile_def remove_def fs1_def split: if_splits)
  have f: "file = dirname file @ [last file]"
    using ne by (simp add: dirname_def)
  from gone f have "lookup fs1 (dirname file @ [last file]) = None" by simp
  with mk have "lookup fs' (dirname file @ [last file]) = None" by (rule mkdirs_no_child[rotated])
  with f show "lookup fs' file = None" by simp
  from mk obtain es where parent: "lookup fs' (dirname file) = Some (Dir es)"
    by (auto dest: mkdirs_isDir)
  fix q assume "strict_prefix q file"
  with f have "prefix q (dirname file)" by (metis prefix_snoc strict_prefix_def)
  then obtain r where r: "dirname file = q @ r" by (auto simp: prefix_def)
  show "\<exists>es. lookup fs' q = Some (Dir es)"
  proof (cases "r = []")
    case True
    with r parent show ?thesis by simp
  next
    case False
    with r parent show ?thesis by (auto dest: lookup_ancestor)
  qed
next
  assume a: "file \<noteq> [] \<and> pathExists fs file"
  then have f: "file = dirname file @ [last file]" by (simp add: dirname_def)
  with a have "lookup fs (dirname file @ [last file]) \<noteq> None" by (simp add: pathExists_def)
  then have "\<exists>es. lookup (remove_at fs (dirname file @ [last file])) (dirname file) = Some (Dir es)"
    by (rule remove_at_keeps_parent)
  then obtain es where "lookup (remove_at fs (dirname file @ [last file])) (dirname file) = Some (Dir es)"
    by blast
  with f have "lookup (remove_at fs file) (dirname file) = Some (Dir es)" by simp
  then have "mkdirs (remove_at fs file) (dirname file) = Inr (remove_at fs file)"
    by (rule mkdirs_existing)
  with a show "\<exists>fs''. ensureFile file fs = Inr fs''"
    by (simp add: ensureFile_def remove_def)
qed

text \<open>
  An existing file is removed and its directories stay; under a missing directory the
  directory is created and the file is not.
\<close>

theorem ensureFile_witness:
  "ensureFile [lit ''out'', lit ''make'', lit ''old.zip''] example_fs
     = Inr (Dir [(lit ''out'', Dir [(lit ''make'', Dir [])]), (lit ''notes'', File)])
   \<and> lookup (Dir [(lit ''out'', Dir [(lit ''make'', Dir [])]), (lit ''notes'', File)])
         [lit ''out'', lit ''make'', lit ''old.zip''] = None
   \<and> ensureFile [lit ''tmp'', lit ''a.zip''] example_fs
     = Inr (Dir [(lit ''out'', Dir [(lit ''make'', Dir [(lit ''old.zip'', File)])]),
                 (lit ''notes'', File), (lit ''tmp'', Dir [])])"
  using ensureFile_absent_parent_exists
          [of "[lit ''out'', lit ''make'', lit ''old.zip'']" example_fs
              "Dir [(lit ''out'', Dir [(lit ''make'', Dir [])]), (lit ''notes'', File)]"]
  by (simp add: ensureFile_def dirname_def pathExists_def remove_def example_fs_def lit_def)

subsection \<open>Auxiliary checks\<close>

text \<open>
  C7. As amended: a string without \<open>-\<close> gets \<open>.0\<close> appended. Otherwise everything
  from the first \<open>-\<close> to the end of its line is removed and \<open>.0\<close> is appended: to the end
  of the string when no line terminator follows the \<open>-\<close>, else up to the first line
  terminator after it, which stays with all that follows.
\<close>

theorem normalizeWindowsVersion_strips:
  "(hyphen \<notin> set v \<longrightarrow> normalizeWindowsVersion v = v @ lit ''.0'')
   \<and> (hyphen \<notin> set pre \<and> (\<forall>c \<in> set suf. \<not> isLineTerminator c) \<longrightarrow>
        normalizeWindowsVersion (pre @ hyphen # suf) = pre @ lit ''.0'')
   \<and> (hyphen \<notin> set pre \<and> (\<forall>c \<in> set suf. \<not> isLineTerminator c) \<and> isLineTerminator t \<longrightarrow>
        normalizeWindowsVersion (pre @ hyphen # suf @ t # rest) = pre @ t # rest @ lit ''.0'')"
proof (intro conjI impI)
  assume "hyphen \<notin> set v"
  then have "dropWhile (\<lambda>c. c \<noteq> hyphen) v = []" by auto
  then show "normalizeWindowsVersion v = v @ lit ''.0''"
    by (simp only: normalizeWindowsVersion_def replace_hyphen_dot_star_def Let_def list.case)
next
  assume h: "hyphen \<notin> set pre \<and> (\<forall>c \<in> set suf. \<not> isLineTerminator c)"
  then have "dropWhile (\<lambda>c. c \<noteq> hyphen) (pre @ hyphen # suf) = hyphen # suf"
    and "takeWhile (\<lambda>c. c \<noteq> hyphen) (pre @ hyphen # suf) = pre"
    by (auto simp: dropWhile_append3 takeWhile_tail)
  moreover from h have "dropWhile (\<lambda>c. \<not> isLineTerminator c) suf = []"
    by (simp add: dropWhile_eq_Nil_conv)
  ultimately show "normalizeWindowsVersion (pre @ hyphen # suf) = pre @ lit ''.0''"
    by (simp add: normalizeWindowsVersion_def replace_hyphen_dot_star_def)
next
  assume h: "hyphen \<notin> set pre \<and> (\<forall>c \<in> set suf. \<not> isLineTerminator c) \<and> isLineTerminator t"
  then have "dropWhile (\<lambda>c. c \<noteq> hyphen) (pre @ hyphen # suf @ t # rest) = hyphen # suf @ t # rest"
    and "takeWhile (\<lambda>c. c \<noteq> hyphen) (pre @ hyphen # suf @ t # rest) = pre"
    by (auto simp: dropWhile_append3 takeWhile_tail)
  moreover from h have "dropWhile (\<lambda>c. \<not> isLineTerminator c) (suf @ t # rest) = t # rest"
    by (simp add: dropWhile_append3)
  ultimately show "normalizeWindowsVersion (pre @ hyphen # suf @ t # rest) = pre @ t # rest @ lit ''.0''"
    by (simp add: normalizeWindowsVersion_def replace_hyphen_dot_star_def)
qed

text \<open>The two versions of the specification.\<close>

theorem normalizeWindowsVersion_witness:
  "normalizeWindowsVersion (lit ''1.2.3-beta.1'') = lit ''1.2.3.0''
   \<and> normalizeWindowsVersion (lit ''2.0.0'') = lit ''2.0.0.0''"
  using normalizeWindowsVersion_strips
          [where v = "lit ''2.0.0''" and pre = "lit ''1.2.3''" and suf = "lit ''beta.1''"
             and t = "0x000A" and rest = "[]"]
  by (simp add: lit_def hyphen_def isLineTerminator_def)

text \<open>
  The claim as stated fails when a line feed follows the \<open>-\<close>: the text after the line
  feed is kept.
\<close>

theorem normalizeWindowsVersion_line_counterexample:
  "normalizeWindowsVersion (lit ''1.0.0-rc'' @ [0x000A] @ lit ''x'')
     = lit ''1.0.0'' @ [0x000A] @ lit ''x.0''
   \<and> normalizeWindowsVersion (lit ''1.0.0-rc'' @ [0x000A] @ lit ''x'') \<noteq> lit ''1.0.0.0''"
  by (simp add: normalizeWindowsVersion_def replace_hyphen_dot_star_def lit_def hyphen_def
        isLineTerminator_def)

text \<open>
  C8. \<open>isInstalled\<close> always returns normally: \<open>true\<close> exactly when the module loads,
  \<open>false\<close> exactly when loading fails, whatever the error.
\<close>

theorem isInstalled_total:
  "(\<exists>b. isInstalled require module = Inr b)
   \<and> ((isInstalled require module = Inr True) = (\<exists>exports. require module = Inr exports))
   \<and> ((isInstalled require module = Inr False) = (\<exists>e. require module = Inl e))"
  by (cases "require module") (auto simp: isInstalled_def)

end
